theory Spec2Isabelle
  imports Main "HOL-Library.Sublist"
begin

section \<open>vagueTime.js: a timestamp as a vague time\<close>

text \<open>
  The module \<^verbatim>\<open>src/vagueTime.js\<close> exports one function, \<^verbatim>\<open>get\<close> (\<^verbatim>\<open>getVagueTime\<close>),
  which turns a timestamp in seconds and an optional reference timestamp into a phrase
  such as \<^verbatim>\<open>just now\<close> or \<^verbatim>\<open>3 weeks ago\<close>.

  Numbers. The inputs are integer numbers of seconds, so a JavaScript number is modelled
  as an \<^typ>\<open>int\<close>, and the one non-integer value the code can produce, \<^verbatim>\<open>NaN\<close> (the time
  value of an invalid \<^verbatim>\<open>Date\<close>), as \<^const>\<open>None\<close> of \<^typ>\<open>int option\<close>. The integer model
  is exact for this code: a \<^verbatim>\<open>Date\<close> holds an integer of magnitude at most
  \<open>8.64 * 10^15 < 2^53\<close> or \<^verbatim>\<open>NaN\<close>, the difference of two such values has magnitude
  below \<open>2^54\<close> (its rounding to a double is written out in \<open>round_to_double\<close>), the
  quotient of such a difference by one of the (even) unit constants has the same floor
  in doubles as in the integers, and \<^verbatim>\<open>%\<close> is exact on doubles.

  The clock. \<^verbatim>\<open>Date.now()\<close> is the one read of the environment; its value is the first
  argument \<open>clock\<close> (milliseconds) of \<open>getTimes\<close> and \<open>getVagueTime\<close>.
\<close>

subsection \<open>Values, and the conversions between numbers and strings\<close>

datatype jsvalue = Num int | Str string

definition digit_char :: "int \<Rightarrow> char" where
  "digit_char k = ''0123456789'' ! nat k"

text \<open>The decimal digits of a non-negative integer, most significant first.\<close>

function digits :: "int \<Rightarrow> string" where
  "digits n = (if n < 10 then [digit_char n] else digits (n div 10) @ [digit_char (n mod 10)])"
  by pat_completeness auto
termination
  by (relation "measure nat") auto

declare digits.simps [simp del]

text \<open>
  \<^verbatim>\<open>Number::toString\<close> of an integer of magnitude below \<open>10^21\<close>, as used by
  \<^verbatim>\<open>timestamp + '000'\<close> and \<^verbatim>\<open>units + ' '\<close>: an optional minus sign and the decimal digits.
  From \<open>10^21\<close> on JavaScript writes an exponent (\<^verbatim>\<open>1e+21\<close>), so there the string below is
  not JavaScript's. Only \<open>getTime\<close> of the string followed by \<^verbatim>\<open>000\<close> is taken of such an
  input, and that is the same on both: JavaScript's string (\<^verbatim>\<open>1e+21000\<close>) reads as an
  infinity, the decimal digits as a number above \<open>10^24\<close>, and \<open>time_clip\<close> sends either to
  \<^verbatim>\<open>NaN\<close>. Every unit count that is printed is below \<open>10^21\<close>.
\<close>

definition number_to_string :: "int \<Rightarrow> string" where
  "number_to_string n = (if n < 0 then CHR ''-'' # digits (- n) else digits n)"

definition is_digit :: "char \<Rightarrow> bool" where
  "is_digit c = (c \<in> set ''0123456789'')"

definition digit_val :: "char \<Rightarrow> int" where
  "digit_val c = of_char c - 48"

definition digits_value :: "string \<Rightarrow> int" where
  "digits_value s = foldl (\<lambda>acc c. acc * 10 + digit_val c) 0 s"

definition unsigned_to_number :: "string \<Rightarrow> int option" where
  "unsigned_to_number s =
     (if s \<noteq> [] \<and> list_all is_digit s then Some (digits_value s) else None)"

text \<open>
  \<^verbatim>\<open>ToNumber\<close> of a string, which \<^verbatim>\<open>Date.prototype.setTime\<close> applies to its argument.
  The strings this program passes are an optional sign and decimal digits (leading zeros
  allowed: \<^verbatim>\<open>'0000'\<close> is 0); the empty string is 0; every other string is read as \<^verbatim>\<open>NaN\<close>
  here, the other numeric literals of JavaScript never being passed.
\<close>

fun string_to_number :: "string \<Rightarrow> int option" where
  "string_to_number [] = Some 0"
| "string_to_number (c # cs) =
     (if c = CHR ''-'' then map_option uminus (unsigned_to_number cs)
      else if c = CHR ''+'' then unsigned_to_number cs
      else unsigned_to_number (c # cs))"

fun to_number :: "jsvalue \<Rightarrow> int option" where
  "to_number (Num n) = Some n"
| "to_number (Str s) = string_to_number s"

text \<open>\<^verbatim>\<open>TimeClip\<close>: a \<^verbatim>\<open>Date\<close> holds at most \<open>8.64 * 10^15\<close> ms either side of the epoch.\<close>

fun time_clip :: "int option \<Rightarrow> int option" where
  "time_clip None = None"
| "time_clip (Some t) = (if \<bar>t\<bar> > 8640000000000000 then None else Some t)"

text \<open>
  The double nearest to an integer of magnitude below \<open>2^54\<close>: the integer itself up to
  \<open>2^53\<close>; beyond, the doubles are the even integers, and an odd one lies halfway between
  two of them, of which the multiple of 4 has the even significand.
\<close>

definition round_to_double :: "int \<Rightarrow> int" where
  "round_to_double d =
     (if \<bar>d\<bar> \<le> 2 ^ 53 \<or> even d then d else if d mod 4 = 1 then d - 1 else d + 1)"

text \<open>\<^verbatim>\<open>a - b\<close> on numbers: \<^verbatim>\<open>NaN\<close> when either side is.\<close>

fun number_sub :: "int option \<Rightarrow> int option \<Rightarrow> int option" where
  "number_sub (Some a) (Some b) = Some (round_to_double (a - b))"
| "number_sub _ _ = None"

text \<open>\<^verbatim>\<open>a % b\<close> for \<open>b \<noteq> 0\<close>: the remainder has the sign of the dividend.\<close>

definition remainder :: "int \<Rightarrow> int \<Rightarrow> int" where
  "remainder a b = sgn a * (\<bar>a\<bar> mod \<bar>b\<bar>)"

subsection \<open>The constants\<close>

record constants_t =
  year :: int
  month :: int
  week :: int
  day :: int
  hour :: int
  minute :: int

definition constants :: constants_t where
  "constants = \<lparr> year = 31557600000, month = 2629800000, week = 604800000,
                 day = 86400000, hour = 3600000, minute = 60000 \<rparr>"

subsection \<open>The times\<close>

text \<open>
  A \<^verbatim>\<open>Date\<close> is its time value. The field \<^verbatim>\<open>then\<close> of the source is \<open>then_date\<close> here
  (\<open>then\<close> is a keyword of the logic). The optional second argument is an \<^typ>\<open>int option\<close>,
  \<^const>\<open>None\<close> when the caller leaves it out (\<^verbatim>\<open>undefined\<close>); the test
  \<^verbatim>\<open>referenceTimestamp ? ... : ...\<close> is one of truthiness, and \<^verbatim>\<open>undefined\<close> and 0 are falsy.
\<close>

record times =
  then_date :: "int option"
  now :: "int option"
  difference :: "int option"

definition getTime :: "jsvalue \<Rightarrow> int option" where
  "getTime timestamp = time_clip (to_number timestamp)"

definition getTimes :: "int \<Rightarrow> int \<Rightarrow> int option \<Rightarrow> times" where
  "getTimes clock timestamp referenceTimestamp =
     (let then_d = getTime (Str (number_to_string timestamp @ ''000''));
          now_d = (case referenceTimestamp of
                     None \<Rightarrow> getTime (Num clock)
                   | Some r \<Rightarrow>
                       if r \<noteq> 0 then getTime (Str (number_to_string r @ ''000''))
                       else getTime (Num clock))
      in \<lparr> then_date = then_d, now = now_d, difference = number_sub now_d then_d \<rparr>)"

subsection \<open>The phrases\<close>

definition pluraliseNoun :: "int \<Rightarrow> string \<Rightarrow> string" where
  "pluraliseNoun amount noun = noun @ (if amount > 1 then ''s'' else '''')"

text \<open>
  \<open>unitInMs\<close> is always one of the constants, so positive; on integers \<^verbatim>\<open>Math.floor\<close> of
  the quotient is \<open>div\<close>.
\<close>

definition getTimeDifferenceAsUnits :: "int \<Rightarrow> int \<Rightarrow> string \<Rightarrow> string" where
  "getTimeDifferenceAsUnits differenceInMs unitInMs unitName =
     (let units = differenceInMs div unitInMs
      in number_to_string units @ '' '' @ pluraliseNoun units unitName @ '' ago'')"

definition getTimeDifferenceAsMixedUnits ::
    "int \<Rightarrow> int \<Rightarrow> string \<Rightarrow> int \<Rightarrow> string \<Rightarrow> string" where
  "getTimeDifferenceAsMixedUnits differenceInMs firstUnitInMs firstUnitName
       secondUnitInMs secondUnitName =
     (let firstUnits = differenceInMs div firstUnitInMs;
          secondUnits = remainder differenceInMs firstUnitInMs div secondUnitInMs
      in number_to_string firstUnits @ '' '' @ pluraliseNoun firstUnits firstUnitName @ '' and '' @
         number_to_string secondUnits @ '' '' @ pluraliseNoun secondUnits secondUnitName @ '' ago'')"

definition getTimeDifferenceAsYears :: "int \<Rightarrow> string" where
  "getTimeDifferenceAsYears d = getTimeDifferenceAsUnits d (year constants) ''year''"

definition getTimeDifferenceAsMonths :: "int \<Rightarrow> string" where
  "getTimeDifferenceAsMonths d = getTimeDifferenceAsUnits d (month constants) ''month''"

definition getTimeDifferenceAsWeeks :: "int \<Rightarrow> string" where
  "getTimeDifferenceAsWeeks d = getTimeDifferenceAsUnits d (week constants) ''week''"

definition getTimeDifferenceAsDays :: "int \<Rightarrow> string" where
  "getTimeDifferenceAsDays d = getTimeDifferenceAsUnits d (day constants) ''day''"

definition getTimeDifferenceAsHours :: "int \<Rightarrow> string" where
  "getTimeDifferenceAsHours d = getTimeDifferenceAsUnits d (hour constants) ''hour''"

definition getTimeDifferenceAsMinutes :: "int \<Rightarrow> string" where
  "getTimeDifferenceAsMinutes d = getTimeDifferenceAsUnits d (minute constants) ''minute''"

definition getTimeDifferenceAsYearsAndMonths :: "int \<Rightarrow> string" where
  "getTimeDifferenceAsYearsAndMonths d =
     (if remainder d (year constants) = 0 then getTimeDifferenceAsYears d
      else getTimeDifferenceAsMixedUnits d (year constants) ''year'' (month constants) ''month'')"

text \<open>
  A comparison with \<^verbatim>\<open>NaN\<close> is false, so a \<^verbatim>\<open>NaN\<close> difference falls through every test
  to the last line.
\<close>

definition getVagueTime :: "int \<Rightarrow> int \<Rightarrow> int option \<Rightarrow> string" where
  "getVagueTime clock timestamp referenceTimestamp =
     (let times = getTimes clock timestamp referenceTimestamp
      in case difference times of
           None \<Rightarrow> ''just now''
         | Some d \<Rightarrow>
             if d \<ge> year constants then getTimeDifferenceAsYearsAndMonths d
             else if d \<ge> month constants then getTimeDifferenceAsMonths d
             else if d \<ge> week constants then getTimeDifferenceAsWeeks d
             else if d \<ge> day constants then getTimeDifferenceAsDays d
             else if d \<ge> hour constants then getTimeDifferenceAsHours d
             else if d \<ge> minute constants then getTimeDifferenceAsMinutes d
             else ''just now'')"

subsection \<open>The units of the specification\<close>

text \<open>
  The specification's table of single-unit phrases: each unit with its threshold, the next
  larger threshold and its noun. It is used to state properties only; the program does not
  read it.
\<close>

definition unit_ranges :: "(int \<times> int \<times> string) list" where
  "unit_ranges =
     [(minute constants, hour constants, ''minute''),
      (hour constants, day constants, ''hour''),
      (day constants, week constants, ''day''),
      (week constants, month constants, ''week''),
      (month constants, year constants, ''month'')]"

text \<open>
  The unit category of a phrase, read off the phrase itself: the word after the first
  space is the noun of the leading unit (\<^verbatim>\<open>now\<close> in \<^verbatim>\<open>just now\<close>), and the categories are
  numbered from 0 for \<^verbatim>\<open>just now\<close> to 6 for years. \<open>thresholds\<close> lists the thresholds in
  the same order, so that category \<open>k + 1\<close> belongs to \<open>thresholds ! k\<close>.
\<close>

definition unit_noun :: "string \<Rightarrow> string" where
  "unit_noun s =
     takeWhile (\<lambda>c. c \<noteq> CHR '' '') (drop 1 (dropWhile (\<lambda>c. c \<noteq> CHR '' '') s))"

definition category :: "string \<Rightarrow> nat" where
  "category s =
     (let w = unit_noun s
      in if w \<in> set [''minute'', ''minutes''] then 1
         else if w \<in> set [''hour'', ''hours''] then 2
         else if w \<in> set [''day'', ''days''] then 3
         else if w \<in> set [''week'', ''weeks''] then 4
         else if w \<in> set [''month'', ''months''] then 5
         else if w \<in> set [''year'', ''years''] then 6
         else 0)"

definition thresholds :: "int list" where
  "thresholds = [minute constants, hour constants, day constants, week constants,
                 month constants, year constants]"

section \<open>Numerals, times and the cascade of thresholds\<close>

lemma is_digit_digit_char: "k < 10 \<Longrightarrow> is_digit (digit_char k)"
  unfolding is_digit_def digit_char_def by (rule nth_mem) simp

lemma digit_val_digit_char:
  assumes "0 \<le> k" "k < 10"
  shows "digit_val (digit_char k) = k"
proof -
  from assms have "k = 0 \<or> k = 1 \<or> k = 2 \<or> k = 3 \<or> k = 4 \<or> k = 5 \<or> k = 6 \<or> k = 7
      \<or> k = 8 \<or> k = 9"
    by arith
  then show ?thesis
    by (elim disjE) (simp_all add: digit_val_def digit_char_def)
qed

lemma digits_not_Nil: "digits n \<noteq> []"
  by (subst digits.simps) simp

lemma digits_all_digit: "list_all is_digit (digits n)"
proof (induction n rule: digits.induct)
  case (1 n)
  show ?case
  proof (cases "n < 10")
    case True
    then show ?thesis by (subst digits.simps) (simp add: is_digit_digit_char)
  next
    case False
    with 1 show ?thesis by (subst digits.simps) (simp add: is_digit_digit_char)
  qed
qed

lemma digits_value_snoc: "digits_value (s @ [c]) = digits_value s * 10 + digit_val c"
  by (simp add: digits_value_def)

lemma digits_value_digits: "0 \<le> n \<Longrightarrow> digits_value (digits n) = n"
proof (induction n rule: digits.induct)
  case (1 n)
  show ?case
  proof (cases "n < 10")
    case True
    with 1(2) show ?thesis
      by (subst digits.simps) (simp add: digits_value_def digit_val_digit_char)
  next
    case False
    with 1 have "digits_value (digits (n div 10)) = n div 10" by simp
    with False show ?thesis
      by (subst digits.simps) (simp add: digits_value_snoc digit_val_digit_char)
  qed
qed

lemma digits_value_000: "digits_value (s @ ''000'') = digits_value s * 1000"
  by (simp add: digits_value_def digit_val_def)

lemma is_digit_not_sign: "is_digit c \<Longrightarrow> c \<noteq> CHR ''-'' \<and> c \<noteq> CHR ''+''"
  by (auto simp: is_digit_def)

lemma unsigned_digits_000:
  "0 \<le> n \<Longrightarrow> unsigned_to_number (digits n @ ''000'') = Some (n * 1000)"
  using digits_all_digit [of n]
  by (simp add: unsigned_to_number_def digits_value_000 digits_value_digits is_digit_def)

lemma string_to_number_digits_000:
  assumes "0 \<le> n"
  shows "string_to_number (digits n @ ''000'') = Some (n * 1000)"
proof (cases "digits n")
  case Nil
  then show ?thesis by (simp add: digits_not_Nil)
next
  case (Cons c cs)
  have "is_digit c" using digits_all_digit [of n] Cons by simp
  then have "c \<noteq> CHR ''-''" "c \<noteq> CHR ''+''" using is_digit_not_sign by blast+
  moreover have "unsigned_to_number (c # cs @ ''000'') = Some (n * 1000)"
    using unsigned_digits_000 [OF assms] Cons by simp
  ultimately show ?thesis using Cons by simp
qed

text \<open>
  Reading back the numeral followed by \<^verbatim>\<open>000\<close>. For \<open>\<bar>n\<bar> < 10^21\<close> this is what JavaScript
  computes; beyond, it is a fact of the decimal digits only, used for \<open>getTime\<close>, where
  the clipping makes the two agree.
\<close>

lemma string_to_number_seconds:
  "string_to_number (number_to_string n @ ''000'') = Some (n * 1000)"
proof (cases "n < 0")
  case True
  then have "unsigned_to_number (digits (- n) @ ''000'') = Some (- n * 1000)"
    using unsigned_digits_000 [of "- n"] by simp
  with True show ?thesis by (simp add: number_to_string_def)
next
  case False
  then show ?thesis by (simp add: number_to_string_def string_to_number_digits_000)
qed

lemma getTime_seconds:
  "getTime (Str (number_to_string n @ ''000'')) =
     (if \<bar>n\<bar> > 8640000000000 then None else Some (n * 1000))"
proof -
  have "\<bar>n * 1000\<bar> > 8640000000000000 \<longleftrightarrow> \<bar>n\<bar> > 8640000000000"
    by arith
  then show ?thesis
    by (simp add: getTime_def string_to_number_seconds)
qed

lemma getTime_clock:
  "getTime (Num clock) = (if \<bar>clock\<bar> > 8640000000000000 then None else Some clock)"
  by (simp add: getTime_def)

lemma round_to_double_even: "even d \<Longrightarrow> round_to_double d = d"
  by (simp add: round_to_double_def)

lemma getVagueTime_cases:
  assumes "difference (getTimes clock ts ref) = Some d"
  shows "getVagueTime clock ts ref =
     (if d \<ge> 31557600000 then getTimeDifferenceAsYearsAndMonths d
      else if d \<ge> 2629800000 then getTimeDifferenceAsMonths d
      else if d \<ge> 604800000 then getTimeDifferenceAsWeeks d
      else if d \<ge> 86400000 then getTimeDifferenceAsDays d
      else if d \<ge> 3600000 then getTimeDifferenceAsHours d
      else if d \<ge> 60000 then getTimeDifferenceAsMinutes d
      else ''just now'')"
  using assms by (simp add: getVagueTime_def constants_def)

lemma remainder_nonneg: "0 \<le> a \<Longrightarrow> 0 < b \<Longrightarrow> remainder a b = a mod b"
  by (cases "a = 0") (simp_all add: remainder_def)

lemma units_phrase:
  assumes "0 < u" "u \<le> d"
  shows "getTimeDifferenceAsUnits d u noun =
     number_to_string (d div u) @ '' '' @ noun @ (if d div u = 1 then '''' else ''s'') @ '' ago''"
proof -
  have "0 < d div u" using assms by (simp add: pos_imp_zdiv_pos_iff)
  then have "d div u > 1 \<longleftrightarrow> d div u \<noteq> 1" by arith
  then show ?thesis
    by (simp add: getTimeDifferenceAsUnits_def pluraliseNoun_def)
qed

text \<open>
  Claim C1. When the difference \<open>d\<close> in milliseconds lies between the threshold \<open>u\<close> of
  one of the units minute, hour, day, week, month and the next larger threshold, the
  phrase is the decimal numeral of \<open>N = d div u\<close>, the unit's noun, and \<^verbatim>\<open>ago\<close>; the noun
  is in the singular exactly when \<open>N = 1\<close>.
\<close>

theorem units_in_range:
  assumes "difference (getTimes clock ts ref) = Some d"
      and "(u, nxt, noun) \<in> set unit_ranges"
      and "u \<le> d" and "d < nxt"
  shows "getVagueTime clock ts ref =
     number_to_string (d div u) @ '' '' @ noun @ (if d div u = 1 then '''' else ''s'') @ '' ago''"
proof -
  note c = getVagueTime_cases [OF assms(1)]
  from assms(2) consider
      "u = 60000" "nxt = 3600000" "noun = ''minute''"
    | "u = 3600000" "nxt = 86400000" "noun = ''hour''"
    | "u = 86400000" "nxt = 604800000" "noun = ''day''"
    | "u = 604800000" "nxt = 2629800000" "noun = ''week''"
    | "u = 2629800000" "nxt = 31557600000" "noun = ''month''"
    by (auto simp: unit_ranges_def constants_def)
  then show ?thesis
  proof cases
    case 1
    with assms(3,4) c show ?thesis
      by (simp add: getTimeDifferenceAsMinutes_def constants_def units_phrase)
  next
    case 2
    with assms(3,4) c show ?thesis
      by (simp add: getTimeDifferenceAsHours_def constants_def units_phrase)
  next
    case 3
    with assms(3,4) c show ?thesis
      by (simp add: getTimeDifferenceAsDays_def constants_def units_phrase)
  next
    case 4
    with assms(3,4) c show ?thesis
      by (simp add: getTimeDifferenceAsWeeks_def constants_def units_phrase)
  next
    case 5
    with assms(3,4) c show ?thesis
      by (simp add: getTimeDifferenceAsMonths_def constants_def units_phrase)
  qed
qed

text \<open>
  The examples of the specification for minutes, hours and weeks, and one for days and
  months, obtained from the theorem.
\<close>

theorem units_in_range_witness:
  "getVagueTime 0 0 (Some 120) = ''2 minutes ago'' \<and>
   getVagueTime 0 0 (Some 3600) = ''1 hour ago'' \<and>
   getVagueTime 0 0 (Some 604800) = ''1 week ago'' \<and>
   getVagueTime 0 0 (Some 259200) = ''3 days ago'' \<and>
   getVagueTime 0 0 (Some 31557599) = ''11 months ago''"
proof -
  have d1: "difference (getTimes 0 0 (Some 120)) = Some 120000" by code_simp
  have d2: "difference (getTimes 0 0 (Some 3600)) = Some 3600000" by code_simp
  have d3: "difference (getTimes 0 0 (Some 604800)) = Some 604800000" by code_simp
  have d4: "difference (getTimes 0 0 (Some 259200)) = Some 259200000" by code_simp
  have d5: "difference (getTimes 0 0 (Some 31557599)) = Some 31557599000" by code_simp
  have m1: "(60000, 3600000, ''minute'') \<in> set unit_ranges"
    and m2: "(3600000, 86400000, ''hour'') \<in> set unit_ranges"
    and m3: "(604800000, 2629800000, ''week'') \<in> set unit_ranges"
    and m4: "(86400000, 604800000, ''day'') \<in> set unit_ranges"
    and m5: "(2629800000, 31557600000, ''month'') \<in> set unit_ranges"
    by (simp_all add: unit_ranges_def constants_def)
  have n: "number_to_string 2 = ''2''" "number_to_string 1 = ''1''"
    "number_to_string 3 = ''3''" "number_to_string 11 = ''11''" by code_simp+
  show ?thesis
    using units_in_range [OF d1 m1] units_in_range [OF d2 m2] units_in_range [OF d3 m3]
      units_in_range [OF d4 m4] units_in_range [OF d5 m5]
    by (simp add: n)
qed

text \<open>
  Claim C5. A difference of at least 0 and less than 60000 milliseconds gives exactly
  \<^verbatim>\<open>just now\<close>.
\<close>

theorem just_now_below_minute:
  assumes "difference (getTimes clock ts ref) = Some d" and "0 \<le> d" and "d < 60000"
  shows "getVagueTime clock ts ref = ''just now''"
  using getVagueTime_cases [OF assms(1)] assms(3) by simp

theorem just_now_below_minute_witness:
  "getVagueTime 0 100 (Some 130) = ''just now'' \<and> getVagueTime 59999 0 None = ''just now''"
proof -
  have d1: "difference (getTimes 0 100 (Some 130)) = Some 30000" by code_simp
  have d2: "difference (getTimes 59999 0 None) = Some 59999" by code_simp
  show ?thesis
    using just_now_below_minute [OF d1] just_now_below_minute [OF d2] by simp
qed

lemma mixed_phrase:
  assumes "31557600000 \<le> d"
  shows "getTimeDifferenceAsMixedUnits d (year constants) ''year'' (month constants) ''month'' =
     number_to_string (d div year constants) @ '' year'' @
       (if d div year constants > 1 then ''s'' else '''') @ '' and '' @
     number_to_string (d mod year constants div month constants) @ '' month'' @
       (if d mod year constants div month constants > 1 then ''s'' else '''') @ '' ago''"
  using assms
  by (simp add: getTimeDifferenceAsMixedUnits_def pluraliseNoun_def constants_def
      remainder_nonneg)

text \<open>
  Claim C2. A difference \<open>d\<close> of a year or more that is not a multiple of the year gives
  \<open>Y\<close> years and \<open>M\<close> months, with \<open>Y = d div year\<close> and \<open>M = (d mod year) div month\<close>,
  each noun with an \<^verbatim>\<open>s\<close> exactly when its count is greater than 1.
\<close>

theorem years_and_months:
  assumes "difference (getTimes clock ts ref) = Some d"
      and "d \<ge> year constants"
      and "d mod year constants \<noteq> 0"
  shows "getVagueTime clock ts ref =
     number_to_string (d div year constants) @ '' year'' @
       (if d div year constants > 1 then ''s'' else '''') @ '' and '' @
     number_to_string (d mod year constants div month constants) @ '' month'' @
       (if d mod year constants div month constants > 1 then ''s'' else '''') @ '' ago''"
proof -
  from assms(2) have big: "31557600000 \<le> d" by (simp add: constants_def)
  with assms(3) have "remainder d (year constants) \<noteq> 0"
    by (simp add: remainder_nonneg constants_def)
  then have "getTimeDifferenceAsYearsAndMonths d =
      getTimeDifferenceAsMixedUnits d (year constants) ''year'' (month constants) ''month''"
    by (simp add: getTimeDifferenceAsYearsAndMonths_def)
  with getVagueTime_cases [OF assms(1)] big show ?thesis
    by (simp add: mixed_phrase)
qed

theorem years_and_months_witness:
  "getVagueTime 0 0 (Some 34187400) = ''1 year and 1 month ago'' \<and>
   getVagueTime 0 0 (Some 100000000) = ''3 years and 2 months ago''"
proof -
  have d1: "difference (getTimes 0 0 (Some 34187400)) = Some 34187400000" by code_simp
  have d2: "difference (getTimes 0 0 (Some 100000000)) = Some 100000000000" by code_simp
  have n: "number_to_string 1 = ''1''" "number_to_string 2 = ''2''" "number_to_string 3 = ''3''"
    by code_simp+
  show ?thesis
    using years_and_months [OF d1] years_and_months [OF d2]
    by (simp add: constants_def n)
qed

lemma digits_only_digits: "\<not> is_digit c \<Longrightarrow> c \<notin> set (digits n)"
  using digits_all_digit [of n] by (auto simp: list_all_iff)

lemma number_to_string_only:
  "\<not> is_digit c \<Longrightarrow> c \<noteq> CHR ''-'' \<Longrightarrow> c \<notin> set (number_to_string n)"
  by (simp add: number_to_string_def digits_only_digits)

text \<open>
  Claim C3. A difference of exactly \<open>N \<ge> 1\<close> years gives \<^verbatim>\<open>N year ago\<close> for \<open>N = 1\<close> and
  \<^verbatim>\<open>N years ago\<close> otherwise, and the word \<^verbatim>\<open>month\<close> does not occur in the phrase.
\<close>

theorem whole_years:
  assumes "difference (getTimes clock ts ref) = Some d"
      and "d = N * year constants" and "N \<ge> 1"
  shows "getVagueTime clock ts ref =
           number_to_string N @ (if N = 1 then '' year ago'' else '' years ago'') \<and>
         \<not> sublist ''month'' (getVagueTime clock ts ref)"
proof -
  from assms(2,3) have big: "31557600000 \<le> d" and q: "d div 31557600000 = N"
    and r: "d mod 31557600000 = 0"
    by (simp_all add: constants_def)
  from big r have "remainder d (year constants) = 0"
    by (simp add: remainder_nonneg constants_def)
  then have "getTimeDifferenceAsYearsAndMonths d = getTimeDifferenceAsUnits d 31557600000 ''year''"
    by (simp add: getTimeDifferenceAsYearsAndMonths_def getTimeDifferenceAsYears_def constants_def)
  with getVagueTime_cases [OF assms(1)] big q
  have res: "getVagueTime clock ts ref =
      number_to_string N @ (if N = 1 then '' year ago'' else '' years ago'')"
    by (simp add: units_phrase)
  have "CHR ''m'' \<notin> set (number_to_string N)"
    by (rule number_to_string_only) (simp_all add: is_digit_def)
  then have "CHR ''m'' \<notin> set (getVagueTime clock ts ref)"
    by (simp add: res)
  moreover have "CHR ''m'' \<in> set (getVagueTime clock ts ref)"
    if "sublist ''month'' (getVagueTime clock ts ref)"
    using set_mono_sublist [OF that] by simp
  ultimately show ?thesis using res by blast
qed

theorem whole_years_witness:
  "getVagueTime 0 0 (Some 31557600) = ''1 year ago'' \<and>
   getVagueTime 0 0 (Some 94672800) = ''3 years ago'' \<and>
   \<not> sublist ''month'' (getVagueTime 0 0 (Some 94672800))"
proof -
  have d1: "difference (getTimes 0 0 (Some 31557600)) = Some 31557600000" by code_simp
  have d2: "difference (getTimes 0 0 (Some 94672800)) = Some 94672800000" by code_simp
  have n: "number_to_string 1 = ''1''" "number_to_string 3 = ''3''" by code_simp+
  show ?thesis
    using whole_years [OF d1, of 1] whole_years [OF d2, of 3]
    by (auto simp: constants_def n)
qed

lemma getVagueTime_single_unit:
  assumes "difference (getTimes clock ts ref) = Some d"
      and "(u, nxt, noun) \<in> set unit_ranges" and "u \<le> d" and "d < nxt"
  shows "getVagueTime clock ts ref = getTimeDifferenceAsUnits d u noun"
proof -
  from assms(2) have "(u = 60000 \<and> nxt = 3600000 \<and> noun = ''minute'') \<or>
      (u = 3600000 \<and> nxt = 86400000 \<and> noun = ''hour'') \<or>
      (u = 86400000 \<and> nxt = 604800000 \<and> noun = ''day'') \<or>
      (u = 604800000 \<and> nxt = 2629800000 \<and> noun = ''week'') \<or>
      (u = 2629800000 \<and> nxt = 31557600000 \<and> noun = ''month'')"
    by (auto simp: unit_ranges_def constants_def)
  with assms(3,4) getVagueTime_cases [OF assms(1)] show ?thesis
    by (elim disjE conjE)
      (simp_all add: getTimeDifferenceAsMinutes_def getTimeDifferenceAsHours_def
        getTimeDifferenceAsDays_def getTimeDifferenceAsWeeks_def getTimeDifferenceAsMonths_def
        constants_def)
qed

lemma getVagueTime_whole_years:
  assumes "difference (getTimes clock ts ref) = Some d"
      and "d \<ge> year constants" and "d mod year constants = 0"
  shows "getVagueTime clock ts ref = getTimeDifferenceAsUnits d (year constants) ''year''"
proof -
  from assms(2) have big: "31557600000 \<le> d" by (simp add: constants_def)
  with assms(3) have "remainder d (year constants) = 0"
    by (simp add: remainder_nonneg constants_def)
  with getVagueTime_cases [OF assms(1)] big show ?thesis
    by (simp add: getTimeDifferenceAsYearsAndMonths_def getTimeDifferenceAsYears_def)
qed

lemma getVagueTime_mixed:
  assumes "difference (getTimes clock ts ref) = Some d"
      and "d \<ge> year constants" and "d mod year constants \<noteq> 0"
  shows "getVagueTime clock ts ref =
     getTimeDifferenceAsMixedUnits d (year constants) ''year'' (month constants) ''month''"
proof -
  from assms(2) have big: "31557600000 \<le> d" by (simp add: constants_def)
  with assms(3) have "remainder d (year constants) \<noteq> 0"
    by (simp add: remainder_nonneg constants_def)
  with getVagueTime_cases [OF assms(1)] big show ?thesis
    by (simp add: getTimeDifferenceAsYearsAndMonths_def)
qed

lemma units_phrase_plural:
  "getTimeDifferenceAsUnits d u noun =
     number_to_string (d div u) @ '' '' @ noun @ (if d div u > 1 then ''s'' else '''') @ '' ago''"
  by (simp add: getTimeDifferenceAsUnits_def pluraliseNoun_def Let_def)

text \<open>
  Claim C4. In every phrase that \<^verbatim>\<open>get\<close> returns, each count \<open>N\<close> is followed by its noun with
  the suffix \<^verbatim>\<open>s\<close> exactly when \<open>N > 1\<close>: in the single-unit phrases of minutes, hours, days,
  weeks and months, in the phrase of whole years, and for both counts of the phrase of
  years and months. The count 0 is reached as the number of months of a mixed phrase,
  when the remainder modulo the year is positive and below a month, and is then printed
  with the singular noun, \<^verbatim>\<open>0 month\<close>. \<open>pluraliseNoun\<close> itself leaves the noun as it is for
  a count of at most 1 and appends \<^verbatim>\<open>s\<close> otherwise.
\<close>

theorem plural_iff_more_than_one:
  assumes "difference (getTimes clock ts ref) = Some d"
  shows "(\<forall>(u, nxt, noun) \<in> set unit_ranges. u \<le> d \<and> d < nxt \<longrightarrow>
            getVagueTime clock ts ref =
              number_to_string (d div u) @ '' '' @ noun @
                (if d div u > 1 then ''s'' else '''') @ '' ago'') \<and>
         (d \<ge> year constants \<and> d mod year constants = 0 \<longrightarrow>
            getVagueTime clock ts ref =
              number_to_string (d div year constants) @ '' year'' @
                (if d div year constants > 1 then ''s'' else '''') @ '' ago'') \<and>
         (d \<ge> year constants \<and> d mod year constants \<noteq> 0 \<longrightarrow>
            getVagueTime clock ts ref =
              number_to_string (d div year constants) @ '' year'' @
                (if d div year constants > 1 then ''s'' else '''') @ '' and '' @
              number_to_string (d mod year constants div month constants) @ '' month'' @
                (if d mod year constants div month constants > 1 then ''s'' else '''') @
              '' ago'') \<and>
         (d \<ge> year constants \<and> 0 < d mod year constants \<and>
          d mod year constants < month constants \<longrightarrow>
            getVagueTime clock ts ref =
              number_to_string (d div year constants) @ '' year'' @
                (if d div year constants > 1 then ''s'' else '''') @ '' and 0 month ago'') \<and>
         (pluraliseNoun N noun' = noun' @ ''s'' \<longleftrightarrow> N > 1) \<and>
         (pluraliseNoun N noun' = noun' \<longleftrightarrow> N \<le> 1)"
proof (intro conjI impI ballI)
  fix x assume x: "x \<in> set unit_ranges"
  show "case x of (u, nxt, noun) \<Rightarrow> u \<le> d \<and> d < nxt \<longrightarrow>
      getVagueTime clock ts ref =
        number_to_string (d div u) @ '' '' @ noun @
          (if d div u > 1 then ''s'' else '''') @ '' ago''"
  proof (cases x)
    case (fields u nxt noun)
    with x have "(u, nxt, noun) \<in> set unit_ranges" by simp
    from getVagueTime_single_unit [OF assms this] fields show ?thesis
      by (simp add: units_phrase_plural)
  qed
next
  assume "d \<ge> year constants \<and> d mod year constants = 0"
  then have "getVagueTime clock ts ref = getTimeDifferenceAsUnits d (year constants) ''year''"
    using getVagueTime_whole_years [OF assms] by simp
  then show "getVagueTime clock ts ref =
      number_to_string (d div year constants) @ '' year'' @
        (if d div year constants > 1 then ''s'' else '''') @ '' ago''"
    by (simp add: units_phrase_plural)
next
  assume a: "d \<ge> year constants \<and> d mod year constants \<noteq> 0"
  then have big: "31557600000 \<le> d" by (simp add: constants_def)
  from a have "getVagueTime clock ts ref =
      getTimeDifferenceAsMixedUnits d (year constants) ''year'' (month constants) ''month''"
    using getVagueTime_mixed [OF assms] by simp
  then show "getVagueTime clock ts ref =
      number_to_string (d div year constants) @ '' year'' @
        (if d div year constants > 1 then ''s'' else '''') @ '' and '' @
      number_to_string (d mod year constants div month constants) @ '' month'' @
        (if d mod year constants div month constants > 1 then ''s'' else '''') @
      '' ago''"
    by (simp only: mixed_phrase [OF big])
next
  assume a: "d \<ge> year constants \<and> 0 < d mod year constants \<and>
      d mod year constants < month constants"
  then have big: "31557600000 \<le> d" and nz: "d mod year constants \<noteq> 0"
    and m: "d mod year constants div month constants = 0"
    by (simp_all add: constants_def)
  have z: "number_to_string 0 = ''0''"
    by (simp add: number_to_string_def digits.simps digit_char_def)
  from a nz have "getVagueTime clock ts ref =
      getTimeDifferenceAsMixedUnits d (year constants) ''year'' (month constants) ''month''"
    using getVagueTime_mixed [OF assms] by simp
  then show "getVagueTime clock ts ref =
      number_to_string (d div year constants) @ '' year'' @
        (if d div year constants > 1 then ''s'' else '''') @ '' and 0 month ago''"
    by (simp add: mixed_phrase [OF big] m z)
next
  show "pluraliseNoun N noun' = noun' @ ''s'' \<longleftrightarrow> N > 1"
    by (simp add: pluraliseNoun_def)
  show "pluraliseNoun N noun' = noun' \<longleftrightarrow> N \<le> 1"
    by (auto simp: pluraliseNoun_def)
qed

text \<open>
  The rule in the phrases: one and two minutes, three years and two months, one year
  and one month, and one year and one millisecond (read from the clock) with its
  \<^verbatim>\<open>0 month\<close>.
\<close>

theorem plural_iff_more_than_one_witness:
  "getVagueTime 0 0 (Some 60) = ''1 minute ago'' \<and>
   getVagueTime 0 0 (Some 120) = ''2 minutes ago'' \<and>
   getVagueTime 0 0 (Some 94672800) = ''3 years ago'' \<and>
   getVagueTime 0 0 (Some 100000000) = ''3 years and 2 months ago'' \<and>
   getVagueTime 0 0 (Some 34187400) = ''1 year and 1 month ago'' \<and>
   getVagueTime 31557600001 0 None = ''1 year and 0 month ago'' \<and>
   pluraliseNoun 0 ''month'' = ''month'' \<and> pluraliseNoun 1 ''month'' = ''month'' \<and>
   pluraliseNoun 2 ''month'' = ''months''"
proof -
  have d1: "difference (getTimes 0 0 (Some 60)) = Some 60000" by code_simp
  have d2: "difference (getTimes 0 0 (Some 120)) = Some 120000" by code_simp
  have d3: "difference (getTimes 0 0 (Some 94672800)) = Some 94672800000" by code_simp
  have d4: "difference (getTimes 0 0 (Some 100000000)) = Some 100000000000" by code_simp
  have d5: "difference (getTimes 0 0 (Some 34187400)) = Some 34187400000" by code_simp
  have d6: "difference (getTimes 31557600001 0 None) = Some 31557600001" by code_simp
  have n: "number_to_string 1 = ''1''" "number_to_string 2 = ''2''" "number_to_string 3 = ''3''"
    by code_simp+
  have m: "(60000, 3600000, ''minute'') \<in> set unit_ranges"
    by (simp add: unit_ranges_def constants_def)
  note t1 = plural_iff_more_than_one [OF d1, of 0 "''month''"]
  note t2 = plural_iff_more_than_one [OF d2, of 1 "''month''"]
  note t3 = plural_iff_more_than_one [OF d3, of 2 "''month''"]
  note t4 = plural_iff_more_than_one [OF d4, of 0 "''month''"]
  note t5 = plural_iff_more_than_one [OF d5, of 0 "''month''"]
  note t6 = plural_iff_more_than_one [OF d6, of 0 "''month''"]
  have "getVagueTime 0 0 (Some 60) = ''1 minute ago''"
    using bspec [OF conjunct1 [OF t1] m] by (simp add: n)
  moreover have "getVagueTime 0 0 (Some 120) = ''2 minutes ago''"
    using bspec [OF conjunct1 [OF t2] m] by (simp add: n)
  moreover have "getVagueTime 0 0 (Some 94672800) = ''3 years ago''"
    using conjunct1 [OF conjunct2 [OF t3]] by (simp add: constants_def n)
  moreover have "getVagueTime 0 0 (Some 100000000) = ''3 years and 2 months ago''"
    using conjunct1 [OF conjunct2 [OF conjunct2 [OF t4]]] by (simp add: constants_def n)
  moreover have "getVagueTime 0 0 (Some 34187400) = ''1 year and 1 month ago''"
    using conjunct1 [OF conjunct2 [OF conjunct2 [OF t5]]] by (simp add: constants_def n)
  moreover have "getVagueTime 31557600001 0 None = ''1 year and 0 month ago''"
    using conjunct1 [OF conjunct2 [OF conjunct2 [OF conjunct2 [OF t6]]]]
    by (simp add: constants_def n)
  moreover have "pluraliseNoun 0 ''month'' = ''month''" using t1 by simp
  moreover have "pluraliseNoun 1 ''month'' = ''month''" using t2 by simp
  moreover have "pluraliseNoun 2 ''month'' = ''months''" using t3 by simp
  ultimately show ?thesis by blast
qed

text \<open>
  Claim C6, as amended. Let \<open>ts \<ge> 0\<close> and \<open>r > 0\<close> be whole seconds. An input within the range
  of a \<^verbatim>\<open>Date\<close> (at most \<open>8.64 * 10^12\<close> seconds) is turned into its \<^verbatim>\<open>Date\<close> by appending
  \<^verbatim>\<open>000\<close> to its decimal numeral, which is multiplication by 1000, and when both inputs are
  within that range the difference is \<open>(r - ts) * 1000\<close>. An input beyond the range leaves
  an invalid \<^verbatim>\<open>Date\<close>, and the difference is then \<^verbatim>\<open>NaN\<close>.
\<close>

theorem seconds_to_milliseconds:
  assumes "0 \<le> ts" and "0 \<le> r" and "r \<noteq> 0"
  shows "(ts \<le> 8640000000000 \<longrightarrow>
            string_to_number (number_to_string ts @ ''000'') = Some (ts * 1000) \<and>
            then_date (getTimes clock ts (Some r)) = Some (ts * 1000)) \<and>
         (r \<le> 8640000000000 \<longrightarrow>
            string_to_number (number_to_string r @ ''000'') = Some (r * 1000) \<and>
            now (getTimes clock ts (Some r)) = Some (r * 1000)) \<and>
         (ts \<le> 8640000000000 \<and> r \<le> 8640000000000 \<longrightarrow>
            difference (getTimes clock ts (Some r)) = Some ((r - ts) * 1000)) \<and>
         (ts > 8640000000000 \<longrightarrow> then_date (getTimes clock ts (Some r)) = None) \<and>
         (r > 8640000000000 \<longrightarrow> now (getTimes clock ts (Some r)) = None) \<and>
         (ts > 8640000000000 \<or> r > 8640000000000 \<longrightarrow>
            difference (getTimes clock ts (Some r)) = None)"
proof -
  have "even ((r - ts) * 1000)" by simp
  then have "round_to_double (r * 1000 - ts * 1000) = (r - ts) * 1000"
    by (simp add: round_to_double_even algebra_simps)
  with assms show ?thesis
    by (auto simp: getTimes_def Let_def getTime_seconds string_to_number_seconds)
qed

theorem seconds_to_milliseconds_witness:
  "difference (getTimes 0 1700000000 (Some 1700000120)) = Some 120000 \<and>
   then_date (getTimes 0 1700000000 (Some 1700000120)) = Some 1700000000000 \<and>
   now (getTimes 0 1700000000 (Some 1700000120)) = Some 1700000120000 \<and>
   difference (getTimes 0 0 (Some 8640000000000)) = Some 8640000000000000 \<and>
   now (getTimes 0 0 (Some 8640000000001)) = None \<and>
   difference (getTimes 0 0 (Some 8640000000001)) = None \<and>
   then_date (getTimes 0 8640000000001 (Some 1)) = None"
  using seconds_to_milliseconds [of 1700000000 1700000120 0]
    seconds_to_milliseconds [of 0 8640000000000 0]
    seconds_to_milliseconds [of 0 8640000000001 0]
    seconds_to_milliseconds [of 8640000000001 1 0]
  by simp

text \<open>
  The claim as stated fails beyond the range of a \<^verbatim>\<open>Date\<close>: with the timestamp 0 and the
  reference 8640000000001 seconds, \<^verbatim>\<open>setTime('8640000000001000')\<close> leaves an invalid date,
  and the difference is \<^verbatim>\<open>NaN\<close>, not 8640000000001000.
\<close>

theorem seconds_to_milliseconds_counterexample:
  "difference (getTimes 0 0 (Some 8640000000001)) \<noteq> Some ((8640000000001 - 0) * 1000)"
  by (simp add: getTimes_def Let_def getTime_seconds)

text \<open>
  Claim C8. With a reference timestamp supplied (and not 0), the result does not depend
  on the clock: two calls with the same timestamp and reference give the same times
  and the same phrase, whatever \<^verbatim>\<open>Date.now()\<close> is at either call.
\<close>

theorem supplied_reference_deterministic:
  assumes "r \<noteq> 0"
  shows "getTimes clock ts (Some r) = getTimes clock' ts (Some r) \<and>
         getVagueTime clock ts (Some r) = getVagueTime clock' ts (Some r)"
  using assms by (simp add: getVagueTime_def getTimes_def)

theorem supplied_reference_deterministic_witness:
  "(120::int) \<noteq> 0 \<and> getVagueTime 0 0 (Some 120) = getVagueTime 1700000000000 0 (Some 120)"
  using supplied_reference_deterministic [of 120 0 0 1700000000000] by simp

text \<open>
  Claim C9. A reference timestamp of 0 is falsy, so it is treated as a reference left
  out: \<^verbatim>\<open>now\<close> is read from the clock, not set to the epoch. With the clock one hour
  after the epoch, the timestamp 0 is \<^verbatim>\<open>1 hour ago\<close> for the reference 0, where the epoch
  as reference would have given \<^verbatim>\<open>just now\<close>.
\<close>

theorem zero_reference_reads_clock:
  "getTimes clock ts (Some 0) = getTimes clock ts None \<and>
   now (getTimes clock ts (Some 0)) = getTime (Num clock) \<and>
   getVagueTime clock ts (Some 0) = getVagueTime clock ts None \<and>
   getVagueTime 3600000 0 (Some 0) = ''1 hour ago''"
proof -
  have "getVagueTime 3600000 0 (Some 0) = ''1 hour ago''" by code_simp
  then show ?thesis by (simp add: getVagueTime_def getTimes_def Let_def)
qed

lemma number_to_string_no_space: "CHR '' '' \<notin> set (number_to_string n)"
  by (rule number_to_string_only) (simp_all add: is_digit_def)

lemma unit_noun_after_number:
  assumes "CHR '' '' \<notin> set n"
  shows "unit_noun (n @ CHR '' '' # rest) = takeWhile (\<lambda>c. c \<noteq> CHR '' '') rest"
proof -
  have "dropWhile (\<lambda>c. c \<noteq> CHR '' '') (n @ CHR '' '' # rest) = CHR '' '' # rest"
    using assms by (subst dropWhile_append2) auto
  then show ?thesis by (simp add: unit_noun_def)
qed

lemma takeWhile_word:
  assumes "CHR '' '' \<notin> set w"
  shows "takeWhile (\<lambda>c. c \<noteq> CHR '' '') (w @ CHR '' '' # rest) = w"
  using assms by (subst takeWhile_append2) auto

lemma pluraliseNoun_no_space:
  "CHR '' '' \<notin> set noun \<Longrightarrow> CHR '' '' \<notin> set (pluraliseNoun amount noun)"
  by (simp add: pluraliseNoun_def)

lemma unit_noun_units:
  assumes "CHR '' '' \<notin> set noun"
  shows "unit_noun (getTimeDifferenceAsUnits d u noun) = pluraliseNoun (d div u) noun"
proof -
  have "getTimeDifferenceAsUnits d u noun =
      number_to_string (d div u) @ CHR '' '' # (pluraliseNoun (d div u) noun @ CHR '' '' # ''ago'')"
    by (simp add: getTimeDifferenceAsUnits_def Let_def)
  then show ?thesis
    by (simp only: unit_noun_after_number [OF number_to_string_no_space]
        takeWhile_word [OF pluraliseNoun_no_space [OF assms]])
qed

lemma unit_noun_mixed:
  assumes "CHR '' '' \<notin> set noun"
  shows "unit_noun (getTimeDifferenceAsMixedUnits d u noun v noun') = pluraliseNoun (d div u) noun"
proof -
  have "\<exists>rest. getTimeDifferenceAsMixedUnits d u noun v noun' =
      number_to_string (d div u) @ CHR '' '' # (pluraliseNoun (d div u) noun @ CHR '' '' # rest)"
    by (simp add: getTimeDifferenceAsMixedUnits_def Let_def)
  then obtain rest where "getTimeDifferenceAsMixedUnits d u noun v noun' =
      number_to_string (d div u) @ CHR '' '' # (pluraliseNoun (d div u) noun @ CHR '' '' # rest)"
    by blast
  then show ?thesis
    by (simp only: unit_noun_after_number [OF number_to_string_no_space]
        takeWhile_word [OF pluraliseNoun_no_space [OF assms]])
qed

lemma category_units:
  "category (getTimeDifferenceAsUnits d u ''minute'') = 1"
  "category (getTimeDifferenceAsUnits d u ''hour'') = 2"
  "category (getTimeDifferenceAsUnits d u ''day'') = 3"
  "category (getTimeDifferenceAsUnits d u ''week'') = 4"
  "category (getTimeDifferenceAsUnits d u ''month'') = 5"
  "category (getTimeDifferenceAsUnits d u ''year'') = 6"
  by (simp_all add: category_def unit_noun_units pluraliseNoun_def)

lemma category_mixed:
  "category (getTimeDifferenceAsMixedUnits d u ''year'' v ''month'') = 6"
  by (simp add: category_def unit_noun_mixed pluraliseNoun_def)

lemma category_just_now: "category ''just now'' = 0"
  by (simp add: category_def unit_noun_def)

lemma category_of_difference:
  assumes "difference (getTimes clock ts ref) = Some d"
  shows "category (getVagueTime clock ts ref) =
     (if d \<ge> 31557600000 then 6 else if d \<ge> 2629800000 then 5
      else if d \<ge> 604800000 then 4 else if d \<ge> 86400000 then 3
      else if d \<ge> 3600000 then 2 else if d \<ge> 60000 then 1 else 0)"
  using getVagueTime_cases [OF assms]
  by (simp add: category_units category_mixed category_just_now
      getTimeDifferenceAsYearsAndMonths_def getTimeDifferenceAsYears_def
      getTimeDifferenceAsMonths_def getTimeDifferenceAsWeeks_def getTimeDifferenceAsDays_def
      getTimeDifferenceAsHours_def getTimeDifferenceAsMinutes_def)

lemma thresholds_below:
  "length (filter (\<lambda>u. u \<le> d) thresholds) =
     (if d \<ge> 31557600000 then 6 else if d \<ge> 2629800000 then 5
      else if d \<ge> 604800000 then 4 else if d \<ge> 86400000 then 3
      else if d \<ge> 3600000 then 2 else if d \<ge> 60000 then 1 else 0)"
  by (simp add: thresholds_def constants_def)

text \<open>
  Claim C7. The category of the phrase is the number of thresholds that the difference
  has reached. Hence it is monotone in the difference, and at each threshold it changes
  exactly there: one millisecond below \<open>thresholds ! k\<close> the category is still \<open>k\<close>, at it the
  category is \<open>k + 1\<close>.
\<close>

theorem category_changes_at_thresholds:
  assumes "difference (getTimes clock ts ref) = Some d"
      and "difference (getTimes clock' ts' ref') = Some d'"
  shows "category (getVagueTime clock ts ref) = length (filter (\<lambda>u. u \<le> d) thresholds) \<and>
         (d \<le> d' \<longrightarrow>
            category (getVagueTime clock ts ref) \<le> category (getVagueTime clock' ts' ref')) \<and>
         (\<forall>k < length thresholds.
            (d = thresholds ! k - 1 \<longrightarrow> category (getVagueTime clock ts ref) = k) \<and>
            (d = thresholds ! k \<longrightarrow> category (getVagueTime clock ts ref) = Suc k))"
proof (intro conjI allI impI)
  note c = category_of_difference [OF assms(1)]
  note c' = category_of_difference [OF assms(2)]
  show "category (getVagueTime clock ts ref) = length (filter (\<lambda>u. u \<le> d) thresholds)"
    by (simp only: c thresholds_below)
  show "category (getVagueTime clock ts ref) \<le> category (getVagueTime clock' ts' ref')"
    if "d \<le> d'"
    using that by (simp add: c c')
  fix k assume "k < length thresholds"
  then have k: "k = 0 \<or> k = 1 \<or> k = 2 \<or> k = 3 \<or> k = 4 \<or> k = 5"
    by (simp add: thresholds_def) arith
  show "category (getVagueTime clock ts ref) = k" if "d = thresholds ! k - 1"
    using k that by (elim disjE) (simp_all add: c thresholds_def constants_def)
  show "category (getVagueTime clock ts ref) = Suc k" if "d = thresholds ! k"
    using k that by (elim disjE) (simp_all add: c thresholds_def constants_def)
qed

text \<open>
  The example of the claim, from the clock: 59999 ms is \<^verbatim>\<open>just now\<close>, of category 0, and
  60000 ms is \<^verbatim>\<open>1 minute ago\<close>, of category 1.
\<close>

theorem category_changes_at_thresholds_witness:
  "getVagueTime 59999 0 None = ''just now'' \<and> getVagueTime 60000 0 None = ''1 minute ago'' \<and>
   category (getVagueTime 59999 0 None) = 0 \<and> category (getVagueTime 60000 0 None) = 1 \<and>
   category (getVagueTime 59999 0 None) \<le> category (getVagueTime 60000 0 None)"
proof -
  have d1: "difference (getTimes 59999 0 None) = Some 59999" by code_simp
  have d2: "difference (getTimes 60000 0 None) = Some 60000" by code_simp
  have p1: "getVagueTime 59999 0 None = ''just now''" by code_simp
  have p2: "getVagueTime 60000 0 None = ''1 minute ago''" by code_simp
  note w1 = category_changes_at_thresholds [OF d1 d2]
  note w2 = category_changes_at_thresholds [OF d2 d1]
  have "category (getVagueTime 59999 0 None) = 0"
    using conjunct1 [OF w1] by (simp add: thresholds_def constants_def)
  moreover have "category (getVagueTime 60000 0 None) = 1"
    using conjunct1 [OF w2] by (simp add: thresholds_def constants_def)
  moreover have "category (getVagueTime 59999 0 None) \<le> category (getVagueTime 60000 0 None)"
    using conjunct1 [OF conjunct2 [OF w1]] by simp
  ultimately show ?thesis using p1 p2 by simp
qed





end
